theory Spec2Isabelle
  imports Complex_Main "HOL-Library.AList"
begin

section \<open>Python values\<close>

text \<open>
  The policy document, the registry response and the trust cache are what \<^verbatim>\<open>json.load\<close>
  returns: \<^verbatim>\<open>None\<close>, booleans, numbers, strings, lists and dictionaries with string keys.
  A dictionary keeps its insertion order, so it is an association list; a key is looked up
  with \<open>map_of\<close> and written with \<open>AList.update\<close> (in place when the key is there, at the
  end otherwise, as \<^verbatim>\<open>d[k] = v\<close> does). Numbers are the rationals: every finite
  \<^verbatim>\<open>int\<close> and \<^verbatim>\<open>float\<close> is one, and Python compares the two kinds by value.
  The non-finite floats (\<^verbatim>\<open>NaN\<close>, \<^verbatim>\<open>Infinity\<close>), which are no JSON, are not modelled.
\<close>

datatype json =
    JNull
  | JBool bool
  | JNum rat
  | JStr string
  | JArr "json list"
  | JObj "(string \<times> json) list"

text \<open>The exceptions the modelled code can raise.\<close>

datatype py_error =
    KeyError
  | TypeError
  | AttributeError
  | ValueError
  | OverflowError
  | OSError
  | UnicodeDecodeError
  | JSONDecodeError

type_synonym 'a result = "py_error + 'a"

text \<open>Sequencing: an exception of the first computation is the exception of the whole.\<close>

definition bind :: "'a result \<Rightarrow> ('a \<Rightarrow> 'b result) \<Rightarrow> 'b result" where
  "bind m f = (case m of Inl e \<Rightarrow> Inl e | Inr v \<Rightarrow> f v)"

text \<open>\<^verbatim>\<open>bool(x)\<close>, the test of \<^verbatim>\<open>if x:\<close>.\<close>

fun truthy :: "json \<Rightarrow> bool" where
  "truthy JNull = False"
| "truthy (JBool b) = b"
| "truthy (JNum r) = (r \<noteq> 0)"
| "truthy (JStr s) = (s \<noteq> [])"
| "truthy (JArr xs) = (xs \<noteq> [])"
| "truthy (JObj kvs) = (kvs \<noteq> [])"

text \<open>
  \<^verbatim>\<open>x == y\<close>. A boolean is the integer 0 or 1; lists are equal element by element;
  dictionaries are equal when they have the same keys with equal values, in any order.
\<close>

function py_eq :: "json \<Rightarrow> json \<Rightarrow> bool" where
  "py_eq JNull y = (case y of JNull \<Rightarrow> True | _ \<Rightarrow> False)"
| "py_eq (JBool a) y =
     (case y of JBool b \<Rightarrow> a = b | JNum r \<Rightarrow> of_bool a = r | _ \<Rightarrow> False)"
| "py_eq (JNum r) y =
     (case y of JBool b \<Rightarrow> r = of_bool b | JNum s \<Rightarrow> r = s | _ \<Rightarrow> False)"
| "py_eq (JStr s) y = (case y of JStr t \<Rightarrow> s = t | _ \<Rightarrow> False)"
| "py_eq (JArr xs) y = (case y of JArr ys \<Rightarrow> list_all2 py_eq xs ys | _ \<Rightarrow> False)"
| "py_eq (JObj a) y =
     (case y of
        JObj b \<Rightarrow>
          list_all (\<lambda>k. case map_of a k of
                           None \<Rightarrow> map_of b k = None
                         | Some v \<Rightarrow> (case map_of b k of None \<Rightarrow> False | Some w \<Rightarrow> py_eq v w))
                   (map fst a @ map fst b)
      | _ \<Rightarrow> False)"
  by pat_completeness auto
termination
proof (relation "measure (\<lambda>(x, y). size x)")
  show "wf (measure (\<lambda>(x :: json, y :: json). size x))" by simp
next
  fix xs :: "json list" and y :: json and ys :: "json list" and x z :: json
  assume "x \<in> set xs"
  then have "size x < Suc (size_list size xs)"
    by (induction xs) auto
  then show "((x, z), (JArr xs, y)) \<in> measure (\<lambda>(x, y). size x)" by simp
next
  fix a :: "(string \<times> json) list" and y :: json and b :: "(string \<times> json) list"
    and k :: string and v w :: json
  assume "map_of a k = Some v"
  then have "(k, v) \<in> set a" by (rule map_of_SomeD)
  then have "size v < Suc (size_list (size_prod (\<lambda>_. 0) size) a)"
    by (induction a) auto
  then show "((v, w), (JObj a, y)) \<in> measure (\<lambda>(x, y). size x)" by simp
qed

text \<open>
  \<^verbatim>\<open>x[k]\<close> with a string \<open>k\<close>: a dictionary without the key raises \<^verbatim>\<open>KeyError\<close>, a list
  or a string wants an integer index, and the other values cannot be subscripted.
\<close>

fun py_getitem :: "json \<Rightarrow> string \<Rightarrow> json result" where
  "py_getitem (JObj kvs) k = (case map_of kvs k of None \<Rightarrow> Inl KeyError | Some v \<Rightarrow> Inr v)"
| "py_getitem _ k = Inl TypeError"

text \<open>\<^verbatim>\<open>x.get(k, d)\<close>: a method of dictionaries only.\<close>

fun py_get :: "json \<Rightarrow> string \<Rightarrow> json \<Rightarrow> json result" where
  "py_get (JObj kvs) k d = Inr (case map_of kvs k of None \<Rightarrow> d | Some v \<Rightarrow> v)"
| "py_get _ k d = Inl AttributeError"

text \<open>
  \<^verbatim>\<open>for x in v\<close>: the elements of a list, the keys of a dictionary, the one-character
  strings of a string; the other values are not iterable.
\<close>

fun py_iter :: "json \<Rightarrow> json list result" where
  "py_iter (JArr xs) = Inr xs"
| "py_iter (JObj kvs) = Inr (map (\<lambda>(k, v). JStr k) kvs)"
| "py_iter (JStr s) = Inr (map (\<lambda>c. JStr [c]) s)"
| "py_iter _ = Inl TypeError"

fun starts_with :: "string \<Rightarrow> string \<Rightarrow> bool" where
  "starts_with t [] = True"
| "starts_with [] (c # s) = False"
| "starts_with (d # t) (c # s) = (d = c \<and> starts_with t s)"

fun substring :: "string \<Rightarrow> string \<Rightarrow> bool" where
  "substring s [] = (s = [])"
| "substring s (c # t) = (starts_with (c # t) s \<or> substring s t)"

text \<open>
  \<^verbatim>\<open>x in c\<close>: an element of a list, a substring of a string (whose left operand must be a
  string), a key of a dictionary (whose keys are strings; a list or a dictionary cannot be
  hashed).
\<close>

fun py_contains :: "json \<Rightarrow> json \<Rightarrow> bool result" where
  "py_contains x (JArr ys) = Inr (list_ex (\<lambda>y. py_eq y x) ys)"
| "py_contains x (JStr t) = (case x of JStr s \<Rightarrow> Inr (substring s t) | _ \<Rightarrow> Inl TypeError)"
| "py_contains x (JObj kvs) =
     (case x of
        JStr k \<Rightarrow> Inr (map_of kvs k \<noteq> None)
      | JArr _ \<Rightarrow> Inl TypeError
      | JObj _ \<Rightarrow> Inl TypeError
      | _ \<Rightarrow> Inr False)"
| "py_contains x _ = Inl TypeError"

fun str_ge :: "string \<Rightarrow> string \<Rightarrow> bool" where
  "str_ge s [] = True"
| "str_ge [] (b # t) = False"
| "str_ge (a # s) (b # t) = (if a = b then str_ge s t else (of_char b :: nat) < of_char a)"

text \<open>
  \<^verbatim>\<open>x >= y\<close>: numbers (and booleans) by value, strings and lists lexicographically; every
  other pair of operands raises \<^verbatim>\<open>TypeError\<close>.
\<close>

fun py_ge :: "json \<Rightarrow> json \<Rightarrow> bool result"
  and py_ge_list :: "json list \<Rightarrow> json list \<Rightarrow> bool result" where
  "py_ge (JNum r) y =
     (case y of JNum s \<Rightarrow> Inr (s \<le> r) | JBool b \<Rightarrow> Inr (of_bool b \<le> r) | _ \<Rightarrow> Inl TypeError)"
| "py_ge (JBool a) y =
     (case y of
        JNum s \<Rightarrow> Inr (s \<le> of_bool a)
      | JBool b \<Rightarrow> Inr ((of_bool b :: rat) \<le> of_bool a)
      | _ \<Rightarrow> Inl TypeError)"
| "py_ge (JStr s) y = (case y of JStr t \<Rightarrow> Inr (str_ge s t) | _ \<Rightarrow> Inl TypeError)"
| "py_ge (JArr xs) y = (case y of JArr ys \<Rightarrow> py_ge_list xs ys | _ \<Rightarrow> Inl TypeError)"
| "py_ge JNull y = Inl TypeError"
| "py_ge (JObj a) y = Inl TypeError"
| "py_ge_list [] ys = Inr (ys = [])"
| "py_ge_list (x # xs) [] = Inr True"
| "py_ge_list (x # xs) (y # ys) = (if py_eq x y then py_ge_list xs ys else py_ge x y)"

section \<open>The policy matcher\<close>

text \<open>
  The object \<^verbatim>\<open>PolicyManager\<close>: the policy document, and the two values the constructor
  takes from \<^verbatim>\<open>_discover_registry\<close>.
\<close>

record policy_manager =
  policies :: json
  registry_response_data :: json
  policy_metrics :: json

text \<open>
  \<^verbatim>\<open>vp = {m['name']: m for m in self.policy_metrics}\<close>. The dictionary is kept as the list of
  its insertions; a later metric of the same name replaces an earlier one, so a key is
  looked up from the end. A name that is a list or a dictionary cannot be a key.
\<close>

fun hashable :: "json \<Rightarrow> bool" where
  "hashable (JArr xs) = False"
| "hashable (JObj kvs) = False"
| "hashable _ = True"

definition name_metric :: "json \<Rightarrow> (json \<times> json) result" where
  "name_metric m =
     bind (py_getitem m ''name'') (\<lambda>n. if hashable n then Inr (n, m) else Inl TypeError)"

fun collect :: "('a \<Rightarrow> 'b result) \<Rightarrow> 'a list \<Rightarrow> 'b list result" where
  "collect f [] = Inr []"
| "collect f (x # xs) =
     (case f x of
        Inl e \<Rightarrow> Inl e
      | Inr y \<Rightarrow> (case collect f xs of Inl e \<Rightarrow> Inl e | Inr ys \<Rightarrow> Inr (y # ys)))"

definition metrics_by_name :: "json \<Rightarrow> (json \<times> json) list result" where
  "metrics_by_name metrics = bind (py_iter metrics) (collect name_metric)"

definition vp_lookup :: "(json \<times> json) list \<Rightarrow> string \<Rightarrow> json result" where
  "vp_lookup vp k =
     (case find (\<lambda>(n, m). n = JStr k) (rev vp) of
        None \<Rightarrow> Inl KeyError
      | Some (n, m) \<Rightarrow> Inr m)"

text \<open>\<^verbatim>\<open>vp[k]['value']\<close>.\<close>

definition qualifier_value :: "(json \<times> json) list \<Rightarrow> string \<Rightarrow> json result" where
  "qualifier_value vp k = bind (vp_lookup vp k) (\<lambda>m. py_getitem m ''value'')"

text \<open>
  The condition that \<^verbatim>\<open>match_policy_and_get_url\<close> and \<^verbatim>\<open>_item_passes_policy\<close> both
  evaluate on an item:
  \<^verbatim>\<open>
    item['verified'] == vp['verified']['value'] and
    item['provider'] in vp['provider']['value'] and
    item['relevance_score'] >= vp['relevance_score']['value'] and
    item['uptime'] >= vp['uptime']['value']
  \<close>
  Python's \<^verbatim>\<open>and\<close> stops at the first false operand, so the later subscripts are not
  evaluated (and cannot raise) once an earlier comparison has failed.
\<close>

definition policy_condition :: "(json \<times> json) list \<Rightarrow> json \<Rightarrow> bool result" where
  "policy_condition vp item =
     bind (py_getitem item ''verified'') (\<lambda>iv.
     bind (qualifier_value vp ''verified'') (\<lambda>qv.
     if \<not> py_eq iv qv then Inr False else
     bind (py_getitem item ''provider'') (\<lambda>ip.
     bind (qualifier_value vp ''provider'') (\<lambda>qp.
     bind (py_contains ip qp) (\<lambda>member.
     if \<not> member then Inr False else
     bind (py_getitem item ''relevance_score'') (\<lambda>ir.
     bind (qualifier_value vp ''relevance_score'') (\<lambda>qr.
     bind (py_ge ir qr) (\<lambda>relevant.
     if \<not> relevant then Inr False else
     bind (py_getitem item ''uptime'') (\<lambda>iu.
     bind (qualifier_value vp ''uptime'') (\<lambda>qu.
     py_ge iu qu))))))))))"

text \<open>The loop of \<^verbatim>\<open>match_policy_and_get_url\<close>: the first item that passes, or \<^verbatim>\<open>None\<close>.\<close>

fun first_match :: "(json \<times> json) list \<Rightarrow> json list \<Rightarrow> json result" where
  "first_match vp [] = Inr JNull"
| "first_match vp (item # items) =
     (case policy_condition vp item of
        Inl e \<Rightarrow> Inl e
      | Inr ok \<Rightarrow> if ok then Inr item else first_match vp items)"

definition match_policy_and_get_url :: "policy_manager \<Rightarrow> json result" where
  "match_policy_and_get_url pm =
     bind (metrics_by_name (policy_metrics pm)) (\<lambda>vp.
     bind (py_get (registry_response_data pm) ''data'' (JArr [])) (\<lambda>d.
     bind (py_iter d) (first_match vp)))"

definition item_passes_policy :: "policy_manager \<Rightarrow> json \<Rightarrow> bool result" where
  "item_passes_policy pm item =
     bind (metrics_by_name (policy_metrics pm)) (\<lambda>vp. policy_condition vp item)"

section \<open>Timestamps\<close>

text \<open>
  A naive \<^verbatim>\<open>datetime\<close>, as \<^verbatim>\<open>datetime.now()\<close> and \<^verbatim>\<open>datetime.strptime\<close> return it. The
  constructor accepts the fields of \<open>valid_datetime\<close> and raises \<^verbatim>\<open>ValueError\<close> on any
  other.
\<close>

record datetime =
  year :: nat
  month :: nat
  day :: nat
  hour :: nat
  minute :: nat
  second :: nat
  microsecond :: nat

definition is_leap :: "nat \<Rightarrow> bool" where
  "is_leap y = (y mod 4 = 0 \<and> (y mod 100 \<noteq> 0 \<or> y mod 400 = 0))"

definition days_in_month :: "nat \<Rightarrow> nat \<Rightarrow> nat" where
  "days_in_month y m =
     (if m = 2 then (if is_leap y then 29 else 28)
      else if m = 4 \<or> m = 6 \<or> m = 9 \<or> m = 11 then 30
      else 31)"

definition valid_datetime :: "datetime \<Rightarrow> bool" where
  "valid_datetime d =
     (1 \<le> year d \<and> year d \<le> 9999 \<and> 1 \<le> month d \<and> month d \<le> 12 \<and>
      1 \<le> day d \<and> day d \<le> days_in_month (year d) (month d) \<and>
      hour d < 24 \<and> minute d < 60 \<and> second d < 60 \<and> microsecond d < 1000000)"

text \<open>
  The position of a datetime on the time line, in microseconds from the start of day 0 of
  the proleptic Gregorian calendar (day 1 is 1 January of year 1). Python compares two
  datetimes field by field and subtracts a \<^verbatim>\<open>timedelta\<close> in the calendar; on valid datetimes
  both are the comparison and the subtraction of these numbers.
\<close>

definition days_before_year :: "nat \<Rightarrow> nat" where
  "days_before_year y = (y - 1) * 365 + (y - 1) div 4 - (y - 1) div 100 + (y - 1) div 400"

definition days_before_month :: "nat \<Rightarrow> nat \<Rightarrow> nat" where
  "days_before_month y m = sum_list (map (days_in_month y) [1..<m])"

definition toordinal :: "datetime \<Rightarrow> nat" where
  "toordinal d = days_before_year (year d) + days_before_month (year d) (month d) + day d"

definition microseconds :: "datetime \<Rightarrow> int" where
  "microseconds d =
     (((int (toordinal d) * 24 + int (hour d)) * 60 + int (minute d)) * 60 + int (second d))
       * 1000000 + int (microsecond d)"

text \<open>
  \<^verbatim>\<open>now - timedelta(hours=72)\<close>, as a position on the time line. The subtraction raises
  \<^verbatim>\<open>OverflowError\<close> when the result would lie before 1 January of year 1.
\<close>

definition hours72 :: int where
  "hours72 = 72 * 3600 * 1000000"

definition cutoff_of :: "datetime \<Rightarrow> int result" where
  "cutoff_of now =
     (if microseconds now - hours72 < 86400 * 1000000 then Inl OverflowError
      else Inr (microseconds now - hours72))"

subsection \<open>The fixed format \<^verbatim>\<open>%d.%m.%Y %H:%M:%S\<close>\<close>

text \<open>
  \<^verbatim>\<open>strftime\<close> writes the day, month, hour, minute and second with two digits and the year
  with four.
\<close>

definition digit_char :: "nat \<Rightarrow> char" where
  "digit_char n = char_of (48 + n)"

definition pad2 :: "nat \<Rightarrow> string" where
  "pad2 n = [digit_char (n div 10 mod 10), digit_char (n mod 10)]"

definition pad4 :: "nat \<Rightarrow> string" where
  "pad4 n = pad2 (n div 100) @ pad2 (n mod 100)"

definition strftime :: "datetime \<Rightarrow> string" where
  "strftime d =
     pad2 (day d) @ ''.'' @ pad2 (month d) @ ''.'' @ pad4 (year d) @ '' '' @
     pad2 (hour d) @ '':'' @ pad2 (minute d) @ '':'' @ pad2 (second d)"

text \<open>
  \<^verbatim>\<open>strptime\<close> matches the text against the regular expression it builds from the format,
  \<^verbatim>\<open>(3[0-1]|[1-2]\d|0[1-9]|[1-9]| [1-9])\.(1[0-2]|0[1-9]|[1-9])\.(\d\d\d\d)\s+\<close>
  \<^verbatim>\<open>(2[0-3]|[0-1]\d|\d):([0-5]\d|\d):(6[0-1]|[0-5]\d|\d)\<close>,
  anchored at the start; the first match in the order of the alternatives counts. A text
  that does not match, a match that leaves text over, and fields that are no date and time
  (31 February, second 60) raise \<^verbatim>\<open>ValueError\<close>. A parser here returns every way to
  match a prefix of its input, in the order in which the regular expression tries them.
  Texts are ASCII: the digits are \<^verbatim>\<open>0\<close> to \<^verbatim>\<open>9\<close>.
\<close>

type_synonym 'a parser = "string \<Rightarrow> ('a \<times> string) list"

definition is_digit :: "char \<Rightarrow> bool" where
  "is_digit c = (48 \<le> (of_char c :: nat) \<and> (of_char c :: nat) \<le> 57)"

definition digit_val :: "char \<Rightarrow> nat" where
  "digit_val c = of_char c - 48"

definition is_space :: "char \<Rightarrow> bool" where
  "is_space c = ((of_char c :: nat) = 32 \<or> (9 \<le> (of_char c :: nat) \<and> (of_char c :: nat) \<le> 13)
                 \<or> (28 \<le> (of_char c :: nat) \<and> (of_char c :: nat) \<le> 31))"

text \<open>One digit \<open>a\<close> with \<open>P a\<close>; two digits \<open>a\<close>, \<open>b\<close> with \<open>P a b\<close>.\<close>

definition one_digit :: "(nat \<Rightarrow> bool) \<Rightarrow> nat parser" where
  "one_digit P s =
     (case s of
        c # r \<Rightarrow> if is_digit c \<and> P (digit_val c) then [(digit_val c, r)] else []
      | [] \<Rightarrow> [])"

definition two_digits :: "(nat \<Rightarrow> nat \<Rightarrow> bool) \<Rightarrow> nat parser" where
  "two_digits P s =
     (case s of
        c # d # r \<Rightarrow>
          if is_digit c \<and> is_digit d \<and> P (digit_val c) (digit_val d)
          then [(10 * digit_val c + digit_val d, r)] else []
      | _ \<Rightarrow> [])"

definition literal :: "char \<Rightarrow> unit parser" where
  "literal c s = (case s of d # r \<Rightarrow> if d = c then [((), r)] else [] | [] \<Rightarrow> [])"

text \<open>\<^verbatim>\<open>\s+\<close>: the longest run of blanks first, then the shorter ones.\<close>

definition blanks :: "unit parser" where
  "blanks s = map (\<lambda>k. ((), drop k s)) (rev [1..<Suc (length (takeWhile is_space s))])"

definition and_then :: "'a parser \<Rightarrow> ('a \<Rightarrow> 'b parser) \<Rightarrow> 'b parser" where
  "and_then p f s = concat (map (\<lambda>(v, r). f v r) (p s))"

definition parse_day :: "nat parser" where
  "parse_day s =
     two_digits (\<lambda>a b. a = 3 \<and> b \<le> 1) s @
     two_digits (\<lambda>a b. 1 \<le> a \<and> a \<le> 2) s @
     two_digits (\<lambda>a b. a = 0 \<and> 1 \<le> b) s @
     one_digit (\<lambda>a. 1 \<le> a) s @
     and_then (literal CHR '' '') (\<lambda>_. one_digit (\<lambda>a. 1 \<le> a)) s"

definition parse_month :: "nat parser" where
  "parse_month s =
     two_digits (\<lambda>a b. a = 1 \<and> b \<le> 2) s @
     two_digits (\<lambda>a b. a = 0 \<and> 1 \<le> b) s @
     one_digit (\<lambda>a. 1 \<le> a) s"

definition parse_year :: "nat parser" where
  "parse_year =
     and_then (two_digits (\<lambda>a b. True)) (\<lambda>hi.
     and_then (two_digits (\<lambda>a b. True)) (\<lambda>lo r. [(100 * hi + lo, r)]))"

definition parse_hour :: "nat parser" where
  "parse_hour s =
     two_digits (\<lambda>a b. a = 2 \<and> b \<le> 3) s @
     two_digits (\<lambda>a b. a \<le> 1) s @
     one_digit (\<lambda>a. True) s"

definition parse_minute :: "nat parser" where
  "parse_minute s = two_digits (\<lambda>a b. a \<le> 5) s @ one_digit (\<lambda>a. True) s"

definition parse_second :: "nat parser" where
  "parse_second s =
     two_digits (\<lambda>a b. a = 6 \<and> b \<le> 1) s @
     two_digits (\<lambda>a b. a \<le> 5) s @
     one_digit (\<lambda>a. True) s"

definition parse_timestamp :: "datetime parser" where
  "parse_timestamp =
     and_then parse_day (\<lambda>d.
     and_then (literal CHR ''.'') (\<lambda>_.
     and_then parse_month (\<lambda>m.
     and_then (literal CHR ''.'') (\<lambda>_.
     and_then parse_year (\<lambda>y.
     and_then blanks (\<lambda>_.
     and_then parse_hour (\<lambda>H.
     and_then (literal CHR '':'') (\<lambda>_.
     and_then parse_minute (\<lambda>M.
     and_then (literal CHR '':'') (\<lambda>_.
     and_then parse_second (\<lambda>S r.
       [(\<lparr>year = y, month = m, day = d, hour = H, minute = M, second = S,
          microsecond = 0\<rparr>, r)])))))))))))"

definition strptime :: "json \<Rightarrow> datetime result" where
  "strptime v =
     (case v of
        JStr s \<Rightarrow>
          (case parse_timestamp s of
             [] \<Rightarrow> Inl ValueError
           | (d, r) # _ \<Rightarrow> if r = [] \<and> valid_datetime d then Inr d else Inl ValueError)
      | _ \<Rightarrow> Inl TypeError)"

section \<open>The registry client\<close>

text \<open>
  The discovery criteria are a dictionary from names to integers and strings; an f-string
  writes an integer in decimal and a string as it is.
\<close>

datatype param = PInt int | PStr string

type_synonym criteria = "(string \<times> param) list"



fun param_json :: "param \<Rightarrow> json" where
  "param_json (PStr s) = JStr s"
| "param_json (PInt i) = JNum (of_int i)"

definition criteria_json :: "criteria \<Rightarrow> json" where
  "criteria_json c = JObj (map (\<lambda>(k, v). (k, param_json v)) c)"

definition default_criteria :: criteria where
  "default_criteria =
     [(''limit'', PInt 3), (''q'', PStr ''recipe''), (''tags'', PStr ''nutrition''),
      (''type'', PStr ''tool''), (''verified'', PStr ''true'')]"






text \<open>
  \<^verbatim>\<open>json.loads\<close>. The decoder skips blanks and then looks at one character to choose what
  to read: a quote, a brace, a bracket, a digit, a minus sign or the first letter of
  \<^verbatim>\<open>true\<close>, \<^verbatim>\<open>false\<close>, \<^verbatim>\<open>null\<close>, \<^verbatim>\<open>NaN\<close>, \<^verbatim>\<open>Infinity\<close>; with any other character, or
  none, it raises \<^verbatim>\<open>JSONDecodeError\<close>. What it reads from there on is the parameter
  \<open>decode\<close>, which returns \<open>None\<close> for a text that is no JSON document.
\<close>

definition json_blank :: "char \<Rightarrow> bool" where
  "json_blank c = (c = CHR '' '' \<or> c = CHR 0x09 \<or> c = CHR 0x0A \<or> c = CHR 0x0D)"

definition json_start :: "char \<Rightarrow> bool" where
  "json_start c = (is_digit c \<or> c \<in> set ''{[-tfnNI'' \<or> c = CHR 0x22)"

definition json_loads :: "(string \<Rightarrow> json option) \<Rightarrow> string \<Rightarrow> json result" where
  "json_loads decode s =
     (case dropWhile json_blank s of
        [] \<Rightarrow> Inl JSONDecodeError
      | c # r \<Rightarrow>
          if json_start c
          then (case decode s of None \<Rightarrow> Inl JSONDecodeError | Some v \<Rightarrow> Inr v)
          else Inl JSONDecodeError)"


section \<open>The trust cache\<close>

text \<open>
  What the process finds at \<^verbatim>\<open>cached_mcp_servers.json\<close>: no file; a file that \<^verbatim>\<open>open\<close>
  refuses (no read permission, a directory); a file whose bytes are no text in the
  encoding of the locale; a text that is no JSON document; a JSON document. The world also
  says whether the file can be opened for writing, and counts the writes.
\<close>

datatype stored = Absent | Unopenable | Undecodable | NotJson | Holds json

record world =
  cache_file :: stored
  cache_writable :: bool
  writes :: nat

text \<open>\<^verbatim>\<open>_load_json\<close> on the cache file: \<^verbatim>\<open>open\<close>, then \<^verbatim>\<open>json.load\<close>.\<close>

fun load_json :: "stored \<Rightarrow> json result" where
  "load_json Absent = Inl OSError"
| "load_json Unopenable = Inl OSError"
| "load_json Undecodable = Inl UnicodeDecodeError"
| "load_json NotJson = Inl JSONDecodeError"
| "load_json (Holds v) = Inr v"

definition path_exists :: "stored \<Rightarrow> bool" where
  "path_exists f = (f \<noteq> Absent)"

definition empty_cache :: json where
  "empty_cache = JObj [(''cached_mcp'', JArr [])]"

definition load_cache :: "world \<Rightarrow> json result" where
  "load_cache w =
     (if \<not> path_exists (cache_file w) then Inr empty_cache
      else (case load_json (cache_file w) of
              Inl e \<Rightarrow> if e = JSONDecodeError then Inr empty_cache else Inl e
            | Inr v \<Rightarrow> Inr v))"

text \<open>
  \<^verbatim>\<open>save_cache\<close>: \<^verbatim>\<open>open(path, 'w')\<close> and \<^verbatim>\<open>json.dump\<close>. The file then holds the document
  (what \<^verbatim>\<open>json.load\<close> reads back from what \<^verbatim>\<open>json.dump\<close> wrote).
\<close>

definition save_cache :: "json \<Rightarrow> world \<Rightarrow> unit result \<times> world" where
  "save_cache cache w =
     (if cache_writable w
      then (Inr (), w\<lparr>cache_file := Holds cache, writes := Suc (writes w)\<rparr>)
      else (Inl OSError, w))"

text \<open>
  The search of \<^verbatim>\<open>update_cache\<close> for the entry of the item:
  \<^verbatim>\<open>next((e for e in ... if e.get("data_item", {}).get("id") == item["id"]), None)\<close>.
\<close>

definition same_id :: "json \<Rightarrow> json \<Rightarrow> bool result" where
  "same_id item e =
     bind (py_get e ''data_item'' (JObj [])) (\<lambda>d.
     bind (py_get d ''id'' JNull) (\<lambda>i.
     bind (py_getitem item ''id'') (\<lambda>j. Inr (py_eq i j))))"

fun first_with_id :: "json \<Rightarrow> json list \<Rightarrow> json result" where
  "first_with_id item [] = Inr JNull"
| "first_with_id item (e # es) =
     (case same_id item e of
        Inl err \<Rightarrow> Inl err
      | Inr same \<Rightarrow> if same then Inr e else first_with_id item es)"

text \<open>\<^verbatim>\<open>xs.index(x)\<close>: the first position that holds a value equal to \<open>x\<close>.\<close>

fun py_index :: "json list \<Rightarrow> json \<Rightarrow> nat result" where
  "py_index [] x = Inl ValueError"
| "py_index (y # ys) x =
     (if py_eq y x then Inr 0
      else (case py_index ys x of Inl e \<Rightarrow> Inl e | Inr i \<Rightarrow> Inr (Suc i)))"

text \<open>
  \<^verbatim>\<open>if existing: last = datetime.strptime(existing['last_cached'], ...); if last > cutoff: return\<close>:
  whether the function returns here.
\<close>

definition still_fresh :: "json \<Rightarrow> int \<Rightarrow> bool result" where
  "still_fresh existing cutoff =
     (if truthy existing
      then bind (py_getitem existing ''last_cached'') (\<lambda>t.
           bind (strptime t) (\<lambda>last. Inr (cutoff < microseconds last)))
      else Inr False)"

definition new_entry :: "json \<Rightarrow> json \<Rightarrow> criteria \<Rightarrow> datetime \<Rightarrow> json" where
  "new_entry endpoint item criteria now =
     JObj [(''mcp_endpoint'', endpoint),
           (''met_protocol_criteria'', JBool True),
           (''last_cached'', JStr (strftime now)),
           (''criteria'', criteria_json criteria),
           (''data_item'', item)]"

text \<open>
  \<^verbatim>\<open>idx = cache["cached_mcp"].index(existing); cache["cached_mcp"][idx] = entry\<close>.
\<close>

definition replace_entry :: "json \<Rightarrow> json \<Rightarrow> json \<Rightarrow> json result" where
  "replace_entry cache existing entry =
     bind (py_getitem cache ''cached_mcp'') (\<lambda>c.
     case c of
       JArr xs \<Rightarrow>
         bind (py_index xs existing) (\<lambda>idx.
         case cache of
           JObj kvs \<Rightarrow> Inr (JObj (AList.update ''cached_mcp'' (JArr (xs[idx := entry])) kvs))
         | _ \<Rightarrow> Inl TypeError)
     | JStr t \<Rightarrow> Inl TypeError
     | _ \<Rightarrow> Inl AttributeError)"

text \<open>\<^verbatim>\<open>cache.setdefault("cached_mcp", []).append(entry)\<close>.\<close>

definition append_entry :: "json \<Rightarrow> json \<Rightarrow> json result" where
  "append_entry cache entry =
     (case cache of
        JObj kvs \<Rightarrow>
          (case (case map_of kvs ''cached_mcp'' of None \<Rightarrow> JArr [] | Some c \<Rightarrow> c) of
             JArr xs \<Rightarrow> Inr (JObj (AList.update ''cached_mcp'' (JArr (xs @ [entry])) kvs))
           | _ \<Rightarrow> Inl AttributeError)
      | _ \<Rightarrow> Inl AttributeError)"

text \<open>
  \<^verbatim>\<open>update_cache\<close>, with the reading \<open>now\<close> of the clock. The result is the exception raised,
  if any, and the world the call leaves behind.
\<close>

definition update_cache :: "json \<Rightarrow> criteria \<Rightarrow> datetime \<Rightarrow> world \<Rightarrow> unit result \<times> world" where
  "update_cache item criteria now w =
     (case py_getitem item ''url'' of Inl e \<Rightarrow> (Inl e, w) | Inr endpoint \<Rightarrow>
      case load_cache w of Inl e \<Rightarrow> (Inl e, w) | Inr cache \<Rightarrow>
      case cutoff_of now of Inl e \<Rightarrow> (Inl e, w) | Inr cutoff \<Rightarrow>
      case bind (py_get cache ''cached_mcp'' (JArr [])) (\<lambda>c.
           bind (py_iter c) (first_with_id item)) of Inl e \<Rightarrow> (Inl e, w) | Inr existing \<Rightarrow>
      case still_fresh existing cutoff of Inl e \<Rightarrow> (Inl e, w) | Inr fresh \<Rightarrow>
      if fresh then (Inr (), w)
      else (case (if truthy existing
                  then replace_entry cache existing (new_entry endpoint item criteria now)
                  else append_entry cache (new_entry endpoint item criteria now)) of
              Inl e \<Rightarrow> (Inl e, w)
            | Inr cache' \<Rightarrow> save_cache cache' w))"

text \<open>\<^verbatim>\<open>load_cached_endpoint\<close>.\<close>

fun first_flagged :: "json list \<Rightarrow> json result" where
  "first_flagged [] = Inr JNull"
| "first_flagged (e # es) =
     (case py_get e ''met_protocol_criteria'' JNull of
        Inl err \<Rightarrow> Inl err
      | Inr flag \<Rightarrow> if truthy flag then py_getitem e ''mcp_endpoint'' else first_flagged es)"

definition load_cached_endpoint :: "world \<Rightarrow> json result" where
  "load_cached_endpoint w =
     bind (load_cache w) (\<lambda>cache.
     bind (py_get cache ''cached_mcp'' (JArr [])) (\<lambda>c.
     bind (py_iter c) first_flagged))"

section \<open>Resolution\<close>

text \<open>
  The loop of the fallback phase of \<^verbatim>\<open>get_verifiable_mcp_endpoint\<close>. Before it returns the
  endpoint it prints the name, the endpoint, the relevance score and the uptime, so these
  four are read first.
\<close>

fun first_passing :: "policy_manager \<Rightarrow> json list \<Rightarrow> json result" where
  "first_passing pm [] = Inr JNull"
| "first_passing pm (entry # entries) =
     (case bind (py_get entry ''data_item'' JNull) (\<lambda>item.
           if truthy item
           then bind (item_passes_policy pm item) (\<lambda>ok. Inr (ok, item))
           else Inr (False, item)) of
        Inl e \<Rightarrow> Inl e
      | Inr (ok, item) \<Rightarrow>
          if ok
          then bind (py_getitem item ''name'') (\<lambda>_.
               bind (py_getitem entry ''mcp_endpoint'') (\<lambda>_.
               bind (py_getitem item ''relevance_score'') (\<lambda>_.
               bind (py_getitem item ''uptime'') (\<lambda>_.
               py_getitem entry ''mcp_endpoint''))))
          else first_passing pm entries)"

definition cache_fallback :: "policy_manager \<Rightarrow> world \<Rightarrow> json result" where
  "cache_fallback pm w =
     bind (load_cache w) (\<lambda>cache.
     bind (py_get cache ''cached_mcp'' (JArr [])) (\<lambda>c.
     bind (py_iter c) (first_passing pm)))"

text \<open>
  \<^verbatim>\<open>get_verifiable_mcp_endpoint\<close>. In the live phase the four fields of \<^verbatim>\<open>mcp_info\<close> are
  read before the cache is touched.
\<close>

definition get_verifiable_mcp_endpoint ::
  "policy_manager \<Rightarrow> datetime \<Rightarrow> world \<Rightarrow> json result \<times> world" where
  "get_verifiable_mcp_endpoint pm now w =
     (case match_policy_and_get_url pm of Inl e \<Rightarrow> (Inl e, w) | Inr live_item \<Rightarrow>
      if truthy live_item
      then (case bind (py_getitem live_item ''name'') (\<lambda>_.
                 bind (py_getitem live_item ''url'') (\<lambda>_.
                 bind (py_getitem live_item ''relevance_score'') (\<lambda>_.
                 bind (py_getitem live_item ''uptime'') (\<lambda>_.
                 py_get (policies pm) ''cache_mcp_servers_policy'' JNull)))) of
              Inl e \<Rightarrow> (Inl e, w)
            | Inr enabled \<Rightarrow>
                (case (if truthy enabled then update_cache live_item default_criteria now w
                       else (Inr (), w)) of
                   (Inl e, w') \<Rightarrow> (Inl e, w')
                 | (Inr u, w') \<Rightarrow> (py_getitem live_item ''url'', w')))
      else (cache_fallback pm w, w))"

section \<open>Notions of the specification\<close>

text \<open>
  The specification speaks of typed data: a registry item with its seven fields, a cache
  entry around an item, a set of four qualifiers. These are its notions, written over the
  dictionaries of the code.
\<close>

text \<open>The field \<open>k\<close> of a dictionary, \<^verbatim>\<open>None\<close> where there is none.\<close>

definition field :: "string \<Rightarrow> json \<Rightarrow> json" where
  "field k v =
     (case v of
        JObj kvs \<Rightarrow> (case map_of kvs k of Some x \<Rightarrow> x | None \<Rightarrow> JNull)
      | _ \<Rightarrow> JNull)"

definition has_field :: "string \<Rightarrow> json \<Rightarrow> bool" where
  "has_field k v = (case v of JObj kvs \<Rightarrow> map_of kvs k \<noteq> None | _ \<Rightarrow> False)"

definition is_dict :: "json \<Rightarrow> bool" where
  "is_dict v = (case v of JObj kvs \<Rightarrow> True | _ \<Rightarrow> False)"

definition is_string :: "json \<Rightarrow> bool" where
  "is_string v = (case v of JStr s \<Rightarrow> True | _ \<Rightarrow> False)"

definition is_number :: "json \<Rightarrow> bool" where
  "is_number v = (case v of JNum r \<Rightarrow> True | _ \<Rightarrow> False)"

definition is_list :: "json \<Rightarrow> bool" where
  "is_list v = (case v of JArr xs \<Rightarrow> True | _ \<Rightarrow> False)"

text \<open>
  The qualifiers are the list \<^verbatim>\<open>qualifiers_metrics\<close> of the policy document. The qualifier
  of a name is the last metric of that name (the one the dictionary \<^verbatim>\<open>vp\<close> keeps), and its
  threshold is the \<^verbatim>\<open>value\<close> of that metric.
\<close>

definition metric_list :: "json \<Rightarrow> json list" where
  "metric_list q = (case q of JArr ms \<Rightarrow> ms | _ \<Rightarrow> [])"

definition metric_named :: "json \<Rightarrow> string \<Rightarrow> json option" where
  "metric_named q k = find (\<lambda>m. field ''name'' m = JStr k) (rev (metric_list q))"

definition threshold :: "json \<Rightarrow> string \<Rightarrow> json" where
  "threshold q k = (case metric_named q k of None \<Rightarrow> JNull | Some m \<Rightarrow> field ''value'' m)"

text \<open>
  The four conditions of the specification on an item: \<^verbatim>\<open>verified\<close> equals the qualifier's
  value, \<^verbatim>\<open>provider\<close> is a member of the qualifier's value, \<^verbatim>\<open>relevance_score\<close> and
  \<^verbatim>\<open>uptime\<close> are at least the qualifier's value.
\<close>

definition verified_ok :: "json \<Rightarrow> json \<Rightarrow> bool" where
  "verified_ok q item = py_eq (field ''verified'' item) (threshold q ''verified'')"

definition provider_ok :: "json \<Rightarrow> json \<Rightarrow> bool" where
  "provider_ok q item =
     (py_contains (field ''provider'' item) (threshold q ''provider'') = Inr True)"

definition relevance_ok :: "json \<Rightarrow> json \<Rightarrow> bool" where
  "relevance_ok q item =
     (py_ge (field ''relevance_score'' item) (threshold q ''relevance_score'') = Inr True)"

definition uptime_ok :: "json \<Rightarrow> json \<Rightarrow> bool" where
  "uptime_ok q item = (py_ge (field ''uptime'' item) (threshold q ''uptime'') = Inr True)"

definition satisfies :: "json \<Rightarrow> json \<Rightarrow> bool" where
  "satisfies q item =
     (verified_ok q item \<and> provider_ok q item \<and> relevance_ok q item \<and> uptime_ok q item)"

text \<open>
  The data model: a registry item has a string \<^verbatim>\<open>id\<close>, a \<^verbatim>\<open>name\<close>, a string \<^verbatim>\<open>url\<close>, a string
  \<^verbatim>\<open>provider\<close>, a \<^verbatim>\<open>verified\<close> value and two numbers, \<^verbatim>\<open>relevance_score\<close> and \<^verbatim>\<open>uptime\<close>;
  the qualifiers are a list of named metrics that holds the four required names, with a
  list or a string of providers and two numeric thresholds; a cache entry has a string
  \<^verbatim>\<open>mcp_endpoint\<close>, a string \<^verbatim>\<open>last_cached\<close> and an item \<^verbatim>\<open>data_item\<close>.
\<close>

definition wf_item :: "json \<Rightarrow> bool" where
  "wf_item item =
     (is_string (field ''id'' item) \<and> has_field ''name'' item \<and>
      is_string (field ''url'' item) \<and>
      is_string (field ''provider'' item) \<and> has_field ''verified'' item \<and>
      is_number (field ''relevance_score'' item) \<and> is_number (field ''uptime'' item))"

definition has_qualifier :: "json \<Rightarrow> string \<Rightarrow> bool" where
  "has_qualifier q k =
     (case metric_named q k of None \<Rightarrow> False | Some m \<Rightarrow> has_field ''value'' m)"

definition wf_qualifiers :: "json \<Rightarrow> bool" where
  "wf_qualifiers q =
     (is_list q \<and> list_all (\<lambda>m. is_string (field ''name'' m)) (metric_list q) \<and>
      has_qualifier q ''verified'' \<and> has_qualifier q ''provider'' \<and>
      has_qualifier q ''relevance_score'' \<and> has_qualifier q ''uptime'' \<and>
      (is_list (threshold q ''provider'') \<or> is_string (threshold q ''provider'')) \<and>
      is_number (threshold q ''relevance_score'') \<and> is_number (threshold q ''uptime''))"

definition wf_entry :: "json \<Rightarrow> bool" where
  "wf_entry e =
     (is_string (field ''mcp_endpoint'' e) \<and> is_string (field ''last_cached'' e) \<and>
      wf_item (field ''data_item'' e))"

text \<open>The entries of a cache document.\<close>

definition cached_entries :: "json \<Rightarrow> json list" where
  "cached_entries cache = (case field ''cached_mcp'' cache of JArr es \<Rightarrow> es | _ \<Rightarrow> [])"

text \<open>The id under which an entry is cached: the \<^verbatim>\<open>id\<close> of its \<^verbatim>\<open>data_item\<close>.\<close>

definition entry_id :: "json \<Rightarrow> json" where
  "entry_id e = field ''id'' (field ''data_item'' e)"










section \<open>Examples\<close>

text \<open>
  The policy of the scenarios of the specification: verified servers of the provider
  \<^verbatim>\<open>acme\<close> with a relevance score of at least 0.8 and an uptime of at least 0.95.
\<close>

definition example_qualifiers :: json where
  "example_qualifiers =
     JArr [JObj [(''name'', JStr ''verified''), (''value'', JBool True),
                 (''need'', JStr ''mandatory'')],
           JObj [(''name'', JStr ''provider''), (''value'', JArr [JStr ''acme'']),
                 (''need'', JStr ''mandatory'')],
           JObj [(''name'', JStr ''relevance_score''), (''value'', JNum (8 / 10)),
                 (''need'', JStr ''mandatory'')],
           JObj [(''name'', JStr ''uptime''), (''value'', JNum (95 / 100)),
                 (''need'', JStr ''mandatory'')]]"

definition example_item :: "string \<Rightarrow> string \<Rightarrow> rat \<Rightarrow> rat \<Rightarrow> json" where
  "example_item i provider relevance uptime =
     JObj [(''id'', JStr i), (''name'', JStr (''server '' @ i)),
           (''url'', JStr (''https://'' @ i @ ''.example/mcp'')),
           (''provider'', JStr provider), (''verified'', JBool True),
           (''relevance_score'', JNum relevance), (''uptime'', JNum uptime)]"

definition example_entry :: "json \<Rightarrow> string \<Rightarrow> json" where
  "example_entry item stamp =
     JObj [(''mcp_endpoint'', field ''url'' item), (''met_protocol_criteria'', JBool True),
           (''last_cached'', JStr stamp), (''criteria'', criteria_json default_criteria),
           (''data_item'', item)]"

definition example_policy :: json where
  "example_policy =
     JObj [(''registry_discovery_end_point'', JStr ''https://registry.example/discover?''),
           (''cache_mcp_servers_policy'', JBool True),
           (''qualifiers_metrics'', example_qualifiers)]"

definition example_manager :: "json \<Rightarrow> policy_manager" where
  "example_manager data =
     \<lparr>policies = example_policy, registry_response_data = data,
      policy_metrics = example_qualifiers\<rparr>"

definition example_world :: "stored \<Rightarrow> world" where
  "example_world f = \<lparr>cache_file = f, cache_writable = True, writes = 0\<rparr>"

definition example_now :: datetime where
  "example_now =
     \<lparr>year = 2026, month = 11, day = 3, hour = 15, minute = 33, second = 7,
      microsecond = 250000\<rparr>"





section \<open>Sequencing\<close>

lemma bind_Inl [simp]: "bind (Inl e) f = Inl e"
  by (simp add: bind_def)

lemma bind_Inr [simp]: "bind (Inr v) f = f v"
  by (simp add: bind_def)

lemma bind_eq_Inr: "bind m f = Inr y \<longleftrightarrow> (\<exists>v. m = Inr v \<and> f v = Inr y)"
  by (cases m) simp_all

section \<open>Evaluating timestamps\<close>

text \<open>The equations that compute a timestamp read, and a position on the time line.\<close>

lemma example_entry_last_cached: "field ''last_cached'' (example_entry item s) = JStr s"
  by (simp add: example_entry_def field_def)

lemmas timestamp_eval =
  strptime_def parse_timestamp_def parse_day_def parse_month_def parse_year_def parse_hour_def
  parse_minute_def parse_second_def blanks_def two_digits_def one_digit_def and_then_def
  literal_def is_digit_def digit_val_def is_space_def valid_datetime_def days_in_month_def
  is_leap_def upt_rec example_entry_last_cached

lemmas timeline_eval =
  cutoff_of_def microseconds_def toordinal_def days_before_year_def days_before_month_def
  days_in_month_def is_leap_def hours72_def upt_rec

lemma example_now_cutoff:
  "cutoff_of example_now = Inr (microseconds example_now - hours72)"
  by (simp add: example_now_def timeline_eval)


section \<open>The matcher and the conditions of the specification\<close>

lemma py_getitem_Inr: "py_getitem v k = Inr x \<longleftrightarrow> (\<exists>kvs. v = JObj kvs \<and> map_of kvs k = Some x)"
  by (cases v) (auto split: option.splits)

lemma py_getitem_field: "py_getitem v k = Inr x \<Longrightarrow> field k v = x"
  by (auto simp: py_getitem_Inr field_def)

lemma py_getitem_has_field: "has_field k v \<Longrightarrow> py_getitem v k = Inr (field k v)"
  by (cases v) (auto simp: has_field_def field_def)

lemma name_metric_Inr: "name_metric m = Inr p \<Longrightarrow> p = (field ''name'' m, m)"
  by (auto simp: name_metric_def bind_eq_Inr dest: py_getitem_field split: if_splits)

lemma collect_name_metric:
  "collect name_metric ms = Inr vp \<Longrightarrow> vp = map (\<lambda>m. (field ''name'' m, m)) ms"
proof (induction ms arbitrary: vp)
  case Nil
  then show ?case by simp
next
  case (Cons m ms)
  then show ?case
    by (auto split: sum.splits dest: name_metric_Inr)
qed

lemma metrics_by_name_Inr:
  assumes "metrics_by_name q = Inr vp"
  shows "vp = map (\<lambda>m. (field ''name'' m, m)) (metric_list q)"
proof (cases q)
  case (JArr ms)
  with assms show ?thesis
    by (simp add: metrics_by_name_def metric_list_def collect_name_metric)
next
  case (JStr s)
  with assms show ?thesis
    by (cases s) (auto simp: metrics_by_name_def metric_list_def name_metric_def split: sum.splits)
next
  case (JObj kvs)
  with assms show ?thesis
    by (cases kvs) (auto simp: metrics_by_name_def metric_list_def name_metric_def split: sum.splits)
qed (use assms in \<open>auto simp: metrics_by_name_def\<close>)

lemma find_map_pair:
  "find (\<lambda>(n, m). n = k) (map (\<lambda>m. (f m, m)) xs)
     = map_option (\<lambda>m. (f m, m)) (find (\<lambda>m. f m = k) xs)"
  by (induction xs) auto

lemma vp_lookup_metric_named:
  assumes "metrics_by_name q = Inr vp"
  shows "vp_lookup vp k = (case metric_named q k of None \<Rightarrow> Inl KeyError | Some m \<Rightarrow> Inr m)"
  using metrics_by_name_Inr [OF assms]
  by (simp add: vp_lookup_def metric_named_def rev_map find_map_pair split: option.splits)

lemma qualifier_value_Inr:
  assumes "metrics_by_name q = Inr vp" and "qualifier_value vp k = Inr v"
  shows "threshold q k = v"
  using assms(2) unfolding qualifier_value_def vp_lookup_metric_named [OF assms(1)] threshold_def
  by (auto split: option.splits dest: py_getitem_field)

lemma policy_condition_sound:
  assumes "metrics_by_name q = Inr vp" and "policy_condition vp item = Inr b"
  shows "b = satisfies q item"
  using assms(2) unfolding policy_condition_def satisfies_def verified_ok_def provider_ok_def relevance_ok_def uptime_ok_def
  by (auto simp: bind_eq_Inr  split: if_splits dest!: py_getitem_field qualifier_value_Inr [OF assms(1)])

lemma is_string_field: "is_string (field k v) \<Longrightarrow> has_field k v"
  by (cases v) (auto simp: is_string_def field_def has_field_def split: option.splits)

lemma is_number_field: "is_number (field k v) \<Longrightarrow> has_field k v"
  by (cases v) (auto simp: is_number_def field_def has_field_def split: option.splits)

lemma name_metric_named:
  "is_string (field ''name'' m) \<Longrightarrow> name_metric m = Inr (field ''name'' m, m)"
  by (frule is_string_field)
     (auto simp: name_metric_def py_getitem_has_field is_string_def split: json.splits)

lemma collect_name_metric_total:
  "list_all (\<lambda>m. is_string (field ''name'' m)) ms \<Longrightarrow>
   collect name_metric ms = Inr (map (\<lambda>m. (field ''name'' m, m)) ms)"
  by (induction ms) (simp_all add: name_metric_named)

lemma metrics_by_name_total:
  assumes "wf_qualifiers q"
  shows "metrics_by_name q = Inr (map (\<lambda>m. (field ''name'' m, m)) (metric_list q))"
proof -
  from assms obtain ms where "q = JArr ms"
    by (cases q) (auto simp: wf_qualifiers_def is_list_def)
  with assms show ?thesis
    by (simp add: wf_qualifiers_def metrics_by_name_def metric_list_def collect_name_metric_total)
qed

lemma qualifier_value_total:
  assumes "metrics_by_name q = Inr vp" and "has_qualifier q k"
  shows "qualifier_value vp k = Inr (threshold q k)"
  using assms(2) unfolding qualifier_value_def vp_lookup_metric_named [OF assms(1)]
  by (auto simp: has_qualifier_def threshold_def py_getitem_has_field split: option.splits)

lemma py_contains_total:
  "is_string x \<Longrightarrow> is_list c \<or> is_string c \<Longrightarrow> \<exists>b. py_contains x c = Inr b"
  by (cases c; cases x) (auto simp: is_string_def is_list_def)

lemma py_ge_total: "is_number x \<Longrightarrow> is_number y \<Longrightarrow> \<exists>b. py_ge x y = Inr b"
  by (cases x; cases y) (auto simp: is_number_def)

lemma policy_condition_total:
  assumes q: "wf_qualifiers q" and item: "wf_item item" and vp: "metrics_by_name q = Inr vp"
  shows "policy_condition vp item = Inr (satisfies q item)"
proof -
  have fields:
    "py_getitem item ''verified'' = Inr (field ''verified'' item)"
    "py_getitem item ''provider'' = Inr (field ''provider'' item)"
    "py_getitem item ''relevance_score'' = Inr (field ''relevance_score'' item)"
    "py_getitem item ''uptime'' = Inr (field ''uptime'' item)"
    using item by (simp_all add: wf_item_def py_getitem_has_field is_string_field is_number_field)
  have thresholds:
    "qualifier_value vp ''verified'' = Inr (threshold q ''verified'')"
    "qualifier_value vp ''provider'' = Inr (threshold q ''provider'')"
    "qualifier_value vp ''relevance_score'' = Inr (threshold q ''relevance_score'')"
    "qualifier_value vp ''uptime'' = Inr (threshold q ''uptime'')"
    using q by (simp_all add: wf_qualifiers_def qualifier_value_total [OF vp])
  obtain b1 where b1: "py_contains (field ''provider'' item) (threshold q ''provider'') = Inr b1"
    using py_contains_total q item unfolding wf_qualifiers_def wf_item_def by blast
  obtain b2 where b2:
    "py_ge (field ''relevance_score'' item) (threshold q ''relevance_score'') = Inr b2"
    using py_ge_total q item unfolding wf_qualifiers_def wf_item_def by blast
  obtain b3 where b3: "py_ge (field ''uptime'' item) (threshold q ''uptime'') = Inr b3"
    using py_ge_total q item unfolding wf_qualifiers_def wf_item_def by blast
  show ?thesis
    by (simp add: policy_condition_def fields thresholds b1 b2 b3 satisfies_def verified_ok_def
        provider_ok_def relevance_ok_def uptime_ok_def)
qed

lemma first_match_find:
  assumes "\<forall>item \<in> set items. policy_condition vp item = Inr (P item)"
  shows "first_match vp items = Inr (case find P items of None \<Rightarrow> JNull | Some item \<Rightarrow> item)"
  using assms by (induction items) simp_all

lemma first_match_sound:
  assumes "first_match vp items = Inr item" and "item \<noteq> JNull"
  shows "item \<in> set items \<and> policy_condition vp item = Inr True"
  using assms by (induction items) (auto split: sum.splits if_splits)

lemma match_policy_first:
  assumes "wf_qualifiers (policy_metrics pm)"
    and "py_get (registry_response_data pm) ''data'' (JArr []) = Inr (JArr items)"
    and "list_all wf_item items"
  shows "match_policy_and_get_url pm =
         Inr (case find (satisfies (policy_metrics pm)) items of
                None \<Rightarrow> JNull
              | Some item \<Rightarrow> item)"
proof -
  let ?q = "policy_metrics pm"
  let ?vp = "map (\<lambda>m. (field ''name'' m, m)) (metric_list ?q)"
  have vp: "metrics_by_name ?q = Inr ?vp"
    using assms(1) by (rule metrics_by_name_total)
  have "\<forall>item \<in> set items. policy_condition ?vp item = Inr (satisfies ?q item)"
    using assms(1,3) vp by (auto simp: list_all_iff intro: policy_condition_total)
  then have "first_match ?vp items =
             Inr (case find (satisfies ?q) items of None \<Rightarrow> JNull | Some item \<Rightarrow> item)"
    by (rule first_match_find)
  then show ?thesis
    unfolding match_policy_and_get_url_def by (simp add: vp assms(2))
qed

lemma match_policy_sound:
  assumes "match_policy_and_get_url pm = Inr item" and "item \<noteq> JNull"
  shows "satisfies (policy_metrics pm) item"
proof -
  from assms(1) obtain vp xs where vp: "metrics_by_name (policy_metrics pm) = Inr vp"
    and "first_match vp xs = Inr item"
    unfolding match_policy_and_get_url_def by (auto simp: bind_eq_Inr)
  with assms(2) have "policy_condition vp item = Inr True"
    by (simp add: first_match_sound)
  with vp show ?thesis
    by (auto dest: policy_condition_sound)
qed

text \<open>
  C2. Over qualifiers that hold the four required names and items of the data model,
  \<^verbatim>\<open>match_policy_and_get_url\<close> returns the first item, in the order of the response, for
  which all four conditions hold, and \<^verbatim>\<open>None\<close> when there is none. And over any data at all:
  an item that the function returns satisfies each of the four conditions, so an item that
  fails one of them is never returned, whatever the other three say.
\<close>

theorem match_policy_returns_first_satisfying:
  "(wf_qualifiers (policy_metrics pm) \<longrightarrow>
    py_get (registry_response_data pm) ''data'' (JArr []) = Inr (JArr items) \<longrightarrow>
    list_all wf_item items \<longrightarrow>
    match_policy_and_get_url pm =
      Inr (case find (\<lambda>item. verified_ok (policy_metrics pm) item \<and>
                               provider_ok (policy_metrics pm) item \<and>
                               relevance_ok (policy_metrics pm) item \<and>
                               uptime_ok (policy_metrics pm) item) items of
             None \<Rightarrow> JNull
           | Some item \<Rightarrow> item)) \<and>
   (\<forall>item. match_policy_and_get_url pm = Inr item \<longrightarrow> item \<noteq> JNull \<longrightarrow>
      verified_ok (policy_metrics pm) item \<and> provider_ok (policy_metrics pm) item \<and>
      relevance_ok (policy_metrics pm) item \<and> uptime_ok (policy_metrics pm) item)"
  using match_policy_first [of pm items] match_policy_sound [of pm]
  unfolding satisfies_def by blast

text \<open>
  The scenario of the specification, with the two items exchanged: the first item fails
  the provider qualifier only and is passed over.
\<close>

theorem match_policy_returns_first_satisfying_witness:
  "wf_qualifiers (policy_metrics (example_manager (JObj [(''data'',
      JArr [example_item ''b'' ''other'' (99 / 100) (99 / 100),
            example_item ''a'' ''acme'' (9 / 10) (99 / 100)])]))) \<and>
   list_all wf_item [example_item ''b'' ''other'' (99 / 100) (99 / 100),
                     example_item ''a'' ''acme'' (9 / 10) (99 / 100)] \<and>
   match_policy_and_get_url (example_manager (JObj [(''data'',
      JArr [example_item ''b'' ''other'' (99 / 100) (99 / 100),
            example_item ''a'' ''acme'' (9 / 10) (99 / 100)])]))
     = Inr (example_item ''a'' ''acme'' (9 / 10) (99 / 100))"
proof -
  let ?b = "example_item ''b'' ''other'' (99 / 100) (99 / 100)"
  let ?a = "example_item ''a'' ''acme'' (9 / 10) (99 / 100)"
  let ?pm = "example_manager (JObj [(''data'', JArr [?b, ?a])])"
  have q: "wf_qualifiers (policy_metrics ?pm)" by code_simp
  have d: "py_get (registry_response_data ?pm) ''data'' (JArr []) = Inr (JArr [?b, ?a])"
    by (simp add: example_manager_def)
  have items: "list_all wf_item [?b, ?a]" by code_simp
  have "(case find (\<lambda>item. verified_ok (policy_metrics ?pm) item \<and>
                                  provider_ok (policy_metrics ?pm) item \<and>
                                  relevance_ok (policy_metrics ?pm) item \<and>
                                  uptime_ok (policy_metrics ?pm) item) [?b, ?a] of
                None \<Rightarrow> JNull
              | Some item \<Rightarrow> item) = ?a"
    by code_simp
  with match_policy_returns_first_satisfying [of ?pm "[?b, ?a]", THEN conjunct1, rule_format,
      OF q d items] q items
  show ?thesis by simp
qed

section \<open>Loading the cache\<close>

text \<open>
  C7, as the code has it. \<^verbatim>\<open>load_cache\<close> returns the empty cache when the file is missing
  and when its text is no JSON document, and the decoded document when it is one. It
  catches \<^verbatim>\<open>json.JSONDecodeError\<close> only: a file that exists and cannot be opened raises the
  error of \<^verbatim>\<open>open\<close> to the caller.
\<close>

theorem load_cache_outcomes:
  "load_cache (w\<lparr>cache_file := Absent\<rparr>) = Inr empty_cache \<and>
   load_cache (w\<lparr>cache_file := NotJson\<rparr>) = Inr empty_cache \<and>
   load_cache (w\<lparr>cache_file := Holds v\<rparr>) = Inr v \<and>
   load_cache (w\<lparr>cache_file := Unopenable\<rparr>) = Inl OSError"
  by (simp add: load_cache_def path_exists_def)

text \<open>
  C7 as stated fails: with a cache file that exists and cannot be opened, \<^verbatim>\<open>load_cache\<close>
  returns no cache but raises.
\<close>

theorem load_cache_unopenable_raises:
  "load_cache \<lparr>cache_file = Unopenable, cache_writable = True, writes = 0\<rparr> = Inl OSError"
  by (simp add: load_cache_def path_exists_def)

section \<open>Building the discovery URL\<close>





section \<open>Discovery that yields nothing\<close>

lemma json_loads_letter_E: "json_loads decode (CHR ''E'' # s) = Inl JSONDecodeError"
  by (simp add: json_loads_def json_blank_def json_start_def is_digit_def)

lemma json_loads_error_text:
  "json_loads decode (''Error fetching the URL: '' @ e) = Inl JSONDecodeError"
  by (simp add: json_loads_letter_E)







section \<open>The fallback phase\<close>

lemma wf_item_dict: "wf_item item \<Longrightarrow> \<exists>kvs. item = JObj kvs \<and> kvs \<noteq> []"
  by (cases item) (auto simp: wf_item_def has_field_def)

lemma wf_item_truthy: "wf_item item \<Longrightarrow> truthy item"
  by (auto dest: wf_item_dict)

lemma py_get_dict: "is_dict v \<Longrightarrow> py_get v k JNull = Inr (field k v)"
  by (cases v) (auto simp: is_dict_def field_def split: option.splits)

lemma has_field_dict: "has_field k v \<Longrightarrow> is_dict v"
  by (cases v) (auto simp: has_field_def is_dict_def)

lemma wf_entry_dict: "wf_entry e \<Longrightarrow> is_dict e"
  by (auto simp: wf_entry_def dest: is_string_field has_field_dict)

lemma item_passes_policy_total:
  assumes "wf_qualifiers (policy_metrics pm)" and "wf_item item"
  shows "item_passes_policy pm item = Inr (satisfies (policy_metrics pm) item)"
  using assms
  by (simp add: item_passes_policy_def metrics_by_name_total policy_condition_total)

lemma item_passes_policy_sound:
  assumes "item_passes_policy pm item = Inr b"
  shows "b = satisfies (policy_metrics pm) item"
  using assms unfolding item_passes_policy_def
  by (auto simp: bind_eq_Inr dest: policy_condition_sound)

lemma first_passing_find:
  assumes "wf_qualifiers (policy_metrics pm)" and "list_all wf_entry entries"
  shows "first_passing pm entries =
         Inr (case find (\<lambda>e. satisfies (policy_metrics pm) (field ''data_item'' e)) entries of
                None \<Rightarrow> JNull
              | Some e \<Rightarrow> field ''mcp_endpoint'' e)"
  using assms(2)
proof (induction entries)
  case Nil
  show ?case by simp
next
  case (Cons e es)
  then have e: "wf_entry e" and es: "list_all wf_entry es" by simp_all
  let ?item = "field ''data_item'' e"
  from e have item: "wf_item ?item" by (simp add: wf_entry_def)
  have get: "py_get e ''data_item'' JNull = Inr ?item"
    using e by (simp add: py_get_dict wf_entry_dict)
  have reads:
    "py_getitem ?item ''name'' = Inr (field ''name'' ?item)"
    "py_getitem ?item ''relevance_score'' = Inr (field ''relevance_score'' ?item)"
    "py_getitem ?item ''uptime'' = Inr (field ''uptime'' ?item)"
    "py_getitem e ''mcp_endpoint'' = Inr (field ''mcp_endpoint'' e)"
    using item e
    by (simp_all add: wf_item_def wf_entry_def py_getitem_has_field is_string_field is_number_field)
  show ?case
    using Cons.IH [OF es]
    by (simp add: get wf_item_truthy [OF item] item_passes_policy_total [OF assms(1) item] reads)
qed

lemma first_passing_sound:
  assumes "first_passing pm entries = Inr v" and "v \<noteq> JNull"
  shows "\<exists>e \<in> set entries. py_getitem e ''mcp_endpoint'' = Inr v \<and>
           satisfies (policy_metrics pm) (field ''data_item'' e)"
  using assms
proof (induction entries)
  case Nil
  then show ?case by simp
next
  case (Cons e es)
  show ?case
  proof (cases "bind (py_get e ''data_item'' JNull) (\<lambda>item.
           if truthy item
           then bind (item_passes_policy pm item) (\<lambda>ok. Inr (ok, item))
           else Inr (False, item))")
    case (Inl err)
    with Cons.prems show ?thesis by simp
  next
    case (Inr p)
    obtain ok item where p: "p = (ok, item)" by (cases p)
    from Inr p have get: "py_get e ''data_item'' JNull = Inr item"
      by (auto simp: bind_eq_Inr split: if_splits)
    then have item: "item = field ''data_item'' e"
      by (cases e) (auto simp: field_def split: option.splits)
    show ?thesis
    proof (cases ok)
      case True
      with Inr p get have "item_passes_policy pm item = Inr True"
        by (auto simp: bind_eq_Inr split: if_splits)
      then have "satisfies (policy_metrics pm) item"
        by (auto dest: item_passes_policy_sound)
      moreover from True Inr p Cons.prems have "py_getitem e ''mcp_endpoint'' = Inr v"
        by (auto simp: bind_eq_Inr)
      ultimately show ?thesis using item by auto
    next
      case False
      with Inr p Cons.prems have "first_passing pm es = Inr v" by simp
      with Cons.IH Cons.prems(2) show ?thesis by auto
    qed
  qed
qed

lemma first_passing_not_entries:
  assumes "py_iter c = Inr xs" and "first_passing pm xs = Inr v" and "v \<noteq> JNull"
  shows "c = JArr xs"
proof (cases c)
  case (JStr s)
  with assms show ?thesis by (cases s) auto
next
  case (JObj kvs)
  with assms show ?thesis by (cases kvs) auto
qed (use assms in auto)

lemma cache_fallback_sound:
  assumes "cache_fallback pm w = Inr v" and "v \<noteq> JNull"
  shows "\<exists>cache e. load_cache w = Inr cache \<and> e \<in> set (cached_entries cache) \<and>
           py_getitem e ''mcp_endpoint'' = Inr v \<and>
           satisfies (policy_metrics pm) (field ''data_item'' e)"
proof -
  from assms(1) obtain cache c xs where
    cache: "load_cache w = Inr cache" and c: "py_get cache ''cached_mcp'' (JArr []) = Inr c"
    and xs: "py_iter c = Inr xs" and v: "first_passing pm xs = Inr v"
    unfolding cache_fallback_def by (auto simp: bind_eq_Inr)
  from first_passing_not_entries [OF xs v assms(2)] have "c = JArr xs" .
  moreover from first_passing_sound [OF v assms(2)] have "xs \<noteq> []" by auto
  ultimately have "cached_entries cache = xs"
    using c by (cases cache) (auto simp: cached_entries_def field_def split: option.splits)
  with first_passing_sound [OF v assms(2)] cache show ?thesis by blast
qed

lemma wf_entry_endpoint: "wf_entry e \<Longrightarrow> field ''mcp_endpoint'' e \<noteq> JNull"
  by (auto simp: wf_entry_def is_string_def)

text \<open>
  C1. When the live phase finds no item and the loaded cache, a list of entries of the
  data model, holds an entry whose item satisfies the four current qualifiers, then
  \<^verbatim>\<open>get_verifiable_mcp_endpoint\<close> returns the endpoint of the first such entry in the
  order of the cache, which is not \<^verbatim>\<open>None\<close>, and leaves the world as it was.
\<close>

theorem fallback_returns_first_qualifying_entry:
  assumes "wf_qualifiers (policy_metrics pm)"
    and "match_policy_and_get_url pm = Inr JNull"
    and "load_cache w = Inr cache"
    and "py_get cache ''cached_mcp'' (JArr []) = Inr (JArr entries)"
    and "list_all wf_entry entries"
    and "find (\<lambda>e. satisfies (policy_metrics pm) (field ''data_item'' e)) entries = Some entry"
  shows "get_verifiable_mcp_endpoint pm now w = (Inr (field ''mcp_endpoint'' entry), w) \<and>
         field ''mcp_endpoint'' entry \<noteq> JNull"
proof -
  have "cache_fallback pm w = Inr (field ''mcp_endpoint'' entry)"
    unfolding cache_fallback_def
    by (simp add: assms(3,4,6) first_passing_find [OF assms(1,5)])
  moreover have "entry \<in> set entries"
    using assms(6) by (auto simp: find_Some_iff)
  then have "wf_entry entry"
    using assms(5) by (simp add: list_all_iff)
  ultimately show ?thesis
    by (simp add: get_verifiable_mcp_endpoint_def assms(2) wf_entry_endpoint)
qed

text \<open>
  Three cached entries: the first fails the provider qualifier, the second and the third
  pass; the endpoint of the second is returned.
\<close>

theorem fallback_returns_first_qualifying_entry_witness:
  "wf_qualifiers (policy_metrics (example_manager (JObj []))) \<and>
   match_policy_and_get_url (example_manager (JObj [])) = Inr JNull \<and>
   list_all wf_entry
     [example_entry (example_item ''b'' ''other'' (99 / 100) (99 / 100)) ''02.11.2026 09:00:00'',
      example_entry (example_item ''a'' ''acme'' (9 / 10) (99 / 100)) ''03.11.2026 14:33:07'',
      example_entry (example_item ''c'' ''acme'' 1 1) ''03.11.2026 14:40:00''] \<and>
   get_verifiable_mcp_endpoint (example_manager (JObj [])) example_now
     (example_world (Holds (JObj [(''cached_mcp'', JArr
        [example_entry (example_item ''b'' ''other'' (99 / 100) (99 / 100)) ''02.11.2026 09:00:00'',
         example_entry (example_item ''a'' ''acme'' (9 / 10) (99 / 100)) ''03.11.2026 14:33:07'',
         example_entry (example_item ''c'' ''acme'' 1 1) ''03.11.2026 14:40:00''])])))
     = (Inr (JStr ''https://a.example/mcp''),
        example_world (Holds (JObj [(''cached_mcp'', JArr
        [example_entry (example_item ''b'' ''other'' (99 / 100) (99 / 100)) ''02.11.2026 09:00:00'',
         example_entry (example_item ''a'' ''acme'' (9 / 10) (99 / 100)) ''03.11.2026 14:33:07'',
         example_entry (example_item ''c'' ''acme'' 1 1) ''03.11.2026 14:40:00''])])))"
proof -
  let ?pm = "example_manager (JObj [])"
  let ?b = "example_entry (example_item ''b'' ''other'' (99 / 100) (99 / 100)) ''02.11.2026 09:00:00''"
  let ?a = "example_entry (example_item ''a'' ''acme'' (9 / 10) (99 / 100)) ''03.11.2026 14:33:07''"
  let ?c = "example_entry (example_item ''c'' ''acme'' 1 1) ''03.11.2026 14:40:00''"
  let ?cache = "JObj [(''cached_mcp'', JArr [?b, ?a, ?c])]"
  let ?w = "example_world (Holds ?cache)"
  have q: "wf_qualifiers (policy_metrics ?pm)" by code_simp
  have live: "match_policy_and_get_url ?pm = Inr JNull" by code_simp
  have cache: "load_cache ?w = Inr ?cache"
    by (simp add: load_cache_def example_world_def path_exists_def)
  have entries: "py_get ?cache ''cached_mcp'' (JArr []) = Inr (JArr [?b, ?a, ?c])" by simp
  have wf: "list_all wf_entry [?b, ?a, ?c]" by code_simp
  have first: "find (\<lambda>e. satisfies (policy_metrics ?pm) (field ''data_item'' e)) [?b, ?a, ?c]
                 = Some ?a"
    by code_simp
  have "field ''mcp_endpoint'' ?a = JStr ''https://a.example/mcp''" by code_simp
  with fallback_returns_first_qualifying_entry [OF q live cache entries wf first, of example_now]
    q live wf
  show ?thesis by simp
qed

text \<open>
  C3. Whatever the cache holds, and whatever its \<^verbatim>\<open>met_protocol_criteria\<close> flags say: when
  the live phase finds no item and \<^verbatim>\<open>get_verifiable_mcp_endpoint\<close> returns an endpoint, it
  is the endpoint of a cached entry whose item satisfies each of the four current
  qualifiers. The flag is never read on this path; the item is checked again.
\<close>

theorem fallback_revalidates_cached_entries:
  assumes "match_policy_and_get_url pm = Inr live" and "\<not> truthy live"
    and "get_verifiable_mcp_endpoint pm now w = (Inr v, w')" and "v \<noteq> JNull"
  shows "\<exists>cache e. load_cache w = Inr cache \<and> e \<in> set (cached_entries cache) \<and>
           py_getitem e ''mcp_endpoint'' = Inr v \<and>
           verified_ok (policy_metrics pm) (field ''data_item'' e) \<and>
           provider_ok (policy_metrics pm) (field ''data_item'' e) \<and>
           relevance_ok (policy_metrics pm) (field ''data_item'' e) \<and>
           uptime_ok (policy_metrics pm) (field ''data_item'' e) \<and> w' = w"
proof -
  from assms(1-3) have "cache_fallback pm w = Inr v" and "w' = w"
    by (auto simp: get_verifiable_mcp_endpoint_def)
  from cache_fallback_sound [OF this(1) assms(4)] \<open>w' = w\<close> show ?thesis
    unfolding satisfies_def by blast
qed

text \<open>
  A policy tightened after caching: the first entry was cached with its flag set, and
  its uptime of 0.9 is below the current threshold of 0.95. The second entry is returned.
\<close>

theorem fallback_revalidates_cached_entries_witness:
  "match_policy_and_get_url (example_manager (JObj [])) = Inr JNull \<and> \<not> truthy JNull \<and>
   get_verifiable_mcp_endpoint (example_manager (JObj [])) example_now
     (example_world (Holds (JObj [(''cached_mcp'', JArr
        [example_entry (example_item ''d'' ''acme'' (9 / 10) (9 / 10)) ''03.11.2026 10:00:00'',
         example_entry (example_item ''a'' ''acme'' (9 / 10) (99 / 100)) ''03.11.2026 14:33:07''])])))
     = (Inr (JStr ''https://a.example/mcp''),
        example_world (Holds (JObj [(''cached_mcp'', JArr
        [example_entry (example_item ''d'' ''acme'' (9 / 10) (9 / 10)) ''03.11.2026 10:00:00'',
         example_entry (example_item ''a'' ''acme'' (9 / 10) (99 / 100)) ''03.11.2026 14:33:07''])]))) \<and>
   truthy (field ''met_protocol_criteria''
     (example_entry (example_item ''d'' ''acme'' (9 / 10) (9 / 10)) ''03.11.2026 10:00:00'')) \<and>
   (\<exists>cache e.
      load_cache (example_world (Holds (JObj [(''cached_mcp'', JArr
        [example_entry (example_item ''d'' ''acme'' (9 / 10) (9 / 10)) ''03.11.2026 10:00:00'',
         example_entry (example_item ''a'' ''acme'' (9 / 10) (99 / 100)) ''03.11.2026 14:33:07''])])))
        = Inr cache \<and>
      e \<in> set (cached_entries cache) \<and>
      py_getitem e ''mcp_endpoint'' = Inr (JStr ''https://a.example/mcp'') \<and>
      uptime_ok (policy_metrics (example_manager (JObj []))) (field ''data_item'' e))"
proof -
  let ?pm = "example_manager (JObj [])"
  let ?d = "example_entry (example_item ''d'' ''acme'' (9 / 10) (9 / 10)) ''03.11.2026 10:00:00''"
  let ?a = "example_entry (example_item ''a'' ''acme'' (9 / 10) (99 / 100)) ''03.11.2026 14:33:07''"
  let ?w = "example_world (Holds (JObj [(''cached_mcp'', JArr [?d, ?a])]))"
  have live: "match_policy_and_get_url ?pm = Inr JNull" by code_simp
  have none: "\<not> truthy JNull" by simp
  have q: "wf_qualifiers (policy_metrics ?pm)" by code_simp
  have wf: "list_all wf_entry [?d, ?a]" by code_simp
  have first: "find (\<lambda>e. satisfies (policy_metrics ?pm) (field ''data_item'' e)) [?d, ?a]
                 = Some ?a"
    by code_simp
  have endpoint: "field ''mcp_endpoint'' ?a = JStr ''https://a.example/mcp''" by code_simp
  have scan: "first_passing ?pm [?d, ?a] = Inr (JStr ''https://a.example/mcp'')"
    using first_passing_find [OF q wf] by (simp only: first option.case endpoint)
  have "cache_fallback ?pm ?w = Inr (JStr ''https://a.example/mcp'')"
    unfolding cache_fallback_def
    by (simp del: first_passing.simps
        add: load_cache_def example_world_def path_exists_def scan)
  then have run: "get_verifiable_mcp_endpoint ?pm example_now ?w
               = (Inr (JStr ''https://a.example/mcp''), ?w)"
    by (simp add: get_verifiable_mcp_endpoint_def live)
  have flag: "truthy (field ''met_protocol_criteria'' ?d)" by code_simp
  have "JStr ''https://a.example/mcp'' \<noteq> JNull" by simp
  from fallback_revalidates_cached_entries [OF live none run this]
  have found: "\<exists>cache e. load_cache ?w = Inr cache \<and> e \<in> set (cached_entries cache) \<and>
      py_getitem e ''mcp_endpoint'' = Inr (JStr ''https://a.example/mcp'') \<and>
      uptime_ok (policy_metrics ?pm) (field ''data_item'' e)"
    by blast
  show ?thesis
    by (rule conjI [OF live conjI [OF none conjI [OF run conjI [OF flag found]]]])
qed

section \<open>The cached endpoint\<close>

lemma first_flagged_find:
  "list_all is_dict es \<Longrightarrow>
   first_flagged es =
     (case find (\<lambda>e. truthy (field ''met_protocol_criteria'' e)) es of
        None \<Rightarrow> Inr JNull
      | Some e \<Rightarrow> py_getitem e ''mcp_endpoint'')"
  by (induction es) (simp_all add: py_get_dict)

lemma load_cached_endpoint_first_flagged:
  assumes "load_cache w = Inr cache"
    and "py_get cache ''cached_mcp'' (JArr []) = Inr (JArr entries)"
    and "list_all is_dict entries"
    and "find (\<lambda>e. truthy (field ''met_protocol_criteria'' e)) entries = Some entry"
  shows "load_cached_endpoint w = py_getitem entry ''mcp_endpoint''"
  unfolding load_cached_endpoint_def
  by (simp add: assms(1,2,4) first_flagged_find [OF assms(3)])

lemma stale_flag_example:
  "truthy (field ''met_protocol_criteria''
     (example_entry (example_item ''d'' ''acme'' (9 / 10) (9 / 10)) ''03.11.2026 10:00:00'')) \<and>
   item_passes_policy (example_manager (JObj []))
     (field ''data_item''
       (example_entry (example_item ''d'' ''acme'' (9 / 10) (9 / 10)) ''03.11.2026 10:00:00''))
     = Inr False \<and>
   load_cached_endpoint (example_world (Holds (JObj [(''cached_mcp'', JArr
     [example_entry (example_item ''d'' ''acme'' (9 / 10) (9 / 10)) ''03.11.2026 10:00:00''])])))
     = Inr (JStr ''https://d.example/mcp'')"
proof -
  let ?pm = "example_manager (JObj [])"
  let ?d = "example_entry (example_item ''d'' ''acme'' (9 / 10) (9 / 10)) ''03.11.2026 10:00:00''"
  let ?cache = "JObj [(''cached_mcp'', JArr [?d])]"
  let ?w = "example_world (Holds ?cache)"
  have flag: "truthy (field ''met_protocol_criteria'' ?d)" by code_simp
  have q: "wf_qualifiers (policy_metrics ?pm)" by code_simp
  have item: "wf_item (field ''data_item'' ?d)" by code_simp
  have "\<not> satisfies (policy_metrics ?pm) (field ''data_item'' ?d)" by code_simp
  with item_passes_policy_total [OF q item]
  have fails: "item_passes_policy ?pm (field ''data_item'' ?d) = Inr False" by simp
  have cache: "load_cache ?w = Inr ?cache"
    by (simp add: load_cache_def example_world_def path_exists_def)
  have entries: "py_get ?cache ''cached_mcp'' (JArr []) = Inr (JArr [?d])" by simp
  have dicts: "list_all is_dict [?d]" by code_simp
  have first: "find (\<lambda>e. truthy (field ''met_protocol_criteria'' e)) [?d] = Some ?d"
    using flag by simp
  have "py_getitem ?d ''mcp_endpoint'' = Inr (JStr ''https://d.example/mcp'')" by code_simp
  with load_cached_endpoint_first_flagged [OF cache entries dicts first]
  have "load_cached_endpoint ?w = Inr (JStr ''https://d.example/mcp'')" by simp
  with flag fails show ?thesis by (intro conjI)
qed

text \<open>
  C9. \<^verbatim>\<open>load_cached_endpoint\<close> returns the \<^verbatim>\<open>mcp_endpoint\<close> of the first entry, in the order of
  the cache, whose \<^verbatim>\<open>met_protocol_criteria\<close> is truthy. It takes no qualifiers and does not
  look at the item of the entry: there is a cache with an entry whose flag is set and whose
  item fails the current policy, and the function returns the endpoint of that entry.
\<close>

theorem load_cached_endpoint_trusts_flag:
  assumes "load_cache w = Inr cache"
    and "py_get cache ''cached_mcp'' (JArr []) = Inr (JArr entries)"
    and "list_all is_dict entries"
    and "find (\<lambda>e. truthy (field ''met_protocol_criteria'' e)) entries = Some entry"
  shows "load_cached_endpoint w = py_getitem entry ''mcp_endpoint'' \<and>
         (\<exists>pm w' e u.
            cache_file w' = Holds (JObj [(''cached_mcp'', JArr [e])]) \<and>
            truthy (field ''met_protocol_criteria'' e) \<and>
            item_passes_policy pm (field ''data_item'' e) = Inr False \<and>
            py_getitem e ''mcp_endpoint'' = Inr (JStr u) \<and>
            load_cached_endpoint w' = Inr (JStr u))"
proof -
  let ?d = "example_entry (example_item ''d'' ''acme'' (9 / 10) (9 / 10)) ''03.11.2026 10:00:00''"
  have "cache_file (example_world (Holds (JObj [(''cached_mcp'', JArr [?d])])))
          = Holds (JObj [(''cached_mcp'', JArr [?d])])"
    by (simp add: example_world_def)
  moreover have "py_getitem ?d ''mcp_endpoint'' = Inr (JStr ''https://d.example/mcp'')"
    by code_simp
  ultimately show ?thesis
    using stale_flag_example load_cached_endpoint_first_flagged [OF assms] by blast
qed

text \<open>
  Two flagged entries; the first, whose uptime is below the threshold, is the one
  returned.
\<close>

theorem load_cached_endpoint_trusts_flag_witness:
  "list_all is_dict
     [example_entry (example_item ''d'' ''acme'' (9 / 10) (9 / 10)) ''03.11.2026 10:00:00'',
      example_entry (example_item ''a'' ''acme'' (9 / 10) (99 / 100)) ''03.11.2026 14:33:07''] \<and>
   load_cached_endpoint (example_world (Holds (JObj [(''cached_mcp'', JArr
     [example_entry (example_item ''d'' ''acme'' (9 / 10) (9 / 10)) ''03.11.2026 10:00:00'',
      example_entry (example_item ''a'' ''acme'' (9 / 10) (99 / 100)) ''03.11.2026 14:33:07''])])))
     = Inr (JStr ''https://d.example/mcp'')"
proof -
  let ?d = "example_entry (example_item ''d'' ''acme'' (9 / 10) (9 / 10)) ''03.11.2026 10:00:00''"
  let ?a = "example_entry (example_item ''a'' ''acme'' (9 / 10) (99 / 100)) ''03.11.2026 14:33:07''"
  let ?cache = "JObj [(''cached_mcp'', JArr [?d, ?a])]"
  let ?w = "example_world (Holds ?cache)"
  have cache: "load_cache ?w = Inr ?cache"
    by (simp add: load_cache_def example_world_def path_exists_def)
  have entries: "py_get ?cache ''cached_mcp'' (JArr []) = Inr (JArr [?d, ?a])" by simp
  have dicts: "list_all is_dict [?d, ?a]" by code_simp
  have first: "find (\<lambda>e. truthy (field ''met_protocol_criteria'' e)) [?d, ?a] = Some ?d"
    by code_simp
  have endpoint: "py_getitem ?d ''mcp_endpoint'' = Inr (JStr ''https://d.example/mcp'')"
    by code_simp
  from load_cached_endpoint_trusts_flag [OF cache entries dicts first]
  have "load_cached_endpoint ?w = py_getitem ?d ''mcp_endpoint''" by (rule conjunct1)
  with endpoint have "load_cached_endpoint ?w = Inr (JStr ''https://d.example/mcp'')"
    by (simp only:)
  with dicts show ?thesis by (intro conjI)
qed

section \<open>The freshness window\<close>

lemma wf_entry_item: "wf_entry e \<Longrightarrow> wf_item (field ''data_item'' e)"
  by (simp add: wf_entry_def)

lemma wf_entry_truthy: "wf_entry e \<Longrightarrow> truthy e"
  by (cases e) (auto simp: wf_entry_def is_string_def field_def split: option.splits)

lemma py_get_default:
  "has_field k v \<Longrightarrow> py_get v k d = Inr (field k v)"
  by (cases v) (auto simp: has_field_def field_def)

lemma py_eq_string: "is_string x \<Longrightarrow> py_eq x y = (x = y)"
  by (cases x; cases y) (auto simp: is_string_def)

lemma wf_item_has_data:
  "wf_item (field k e) \<Longrightarrow> has_field k e"
  by (cases e) (auto simp: wf_item_def has_field_def field_def is_string_def split: option.splits)

lemma same_id_wf:
  assumes "wf_entry e" and "has_field ''id'' item"
  shows "same_id item e = Inr (entry_id e = field ''id'' item)"
proof -
  let ?d = "field ''data_item'' e"
  from assms(1) have item: "wf_item ?d" by (rule wf_entry_item)
  then have "py_get e ''data_item'' (JObj []) = Inr ?d"
    by (simp add: py_get_default wf_item_has_data)
  moreover from item have "is_string (field ''id'' ?d)" by (simp add: wf_item_def)
  moreover from this have "py_get ?d ''id'' JNull = Inr (field ''id'' ?d)"
    by (simp add: py_get_default is_string_field)
  ultimately show ?thesis
    using assms(2) by (simp add: same_id_def py_getitem_has_field entry_id_def py_eq_string)
qed

lemma first_with_id_find:
  assumes "has_field ''id'' item" and "list_all wf_entry es"
  shows "first_with_id item es =
         Inr (case find (\<lambda>e. entry_id e = field ''id'' item) es of
                None \<Rightarrow> JNull
              | Some e \<Rightarrow> e)"
  using assms(2) by (induction es) (simp_all add: same_id_wf [OF _ assms(1)])

text \<open>
  What \<^verbatim>\<open>update_cache\<close> does once the entry of the item has been found.
\<close>

lemma update_cache_found:
  assumes "wf_item item" and "load_cache w = Inr cache"
    and "py_get cache ''cached_mcp'' (JArr []) = Inr (JArr entries)"
    and "list_all wf_entry entries"
    and "find (\<lambda>e. entry_id e = field ''id'' item) entries = Some e"
    and "cutoff_of now = Inr cutoff"
  shows "update_cache item criteria now w =
         (case strptime (field ''last_cached'' e) of
            Inl err \<Rightarrow> (Inl err, w)
          | Inr t \<Rightarrow>
              if cutoff < microseconds t then (Inr (), w)
              else (case replace_entry cache e
                           (new_entry (field ''url'' item) item criteria now) of
                      Inl err \<Rightarrow> (Inl err, w)
                    | Inr cache' \<Rightarrow> save_cache cache' w))"
proof -
  have url: "py_getitem item ''url'' = Inr (field ''url'' item)"
    using assms(1) by (simp add: wf_item_def py_getitem_has_field is_string_field)
  have id: "has_field ''id'' item"
    using assms(1) by (simp add: wf_item_def is_string_field)
  have "e \<in> set entries"
    using assms(5) by (auto simp: find_Some_iff)
  then have e: "wf_entry e"
    using assms(4) by (simp add: list_all_iff)
  then have stamp: "py_getitem e ''last_cached'' = Inr (field ''last_cached'' e)"
    by (simp add: wf_entry_def py_getitem_has_field is_string_field)
  show ?thesis
    unfolding update_cache_def
    by (simp add: url assms(2,3,5,6) first_with_id_find [OF id assms(4)]
        wf_entry_truthy [OF e] still_fresh_def stamp split: sum.splits)
qed

text \<open>
  C4. When the cache holds an entry for the id of the item, and the \<^verbatim>\<open>last_cached\<close> of that
  entry is a timestamp less than 72 hours before the reading of the clock, then
  \<^verbatim>\<open>update_cache\<close> returns and leaves the world as it was: the cache file holds what it
  held, with the same \<^verbatim>\<open>last_cached\<close>, and nothing has been written.
\<close>

theorem update_cache_skips_fresh_entry:
  assumes "wf_item item" and "load_cache w = Inr cache"
    and "py_get cache ''cached_mcp'' (JArr []) = Inr (JArr entries)"
    and "list_all wf_entry entries"
    and "find (\<lambda>e. entry_id e = field ''id'' item) entries = Some e"
    and "strptime (field ''last_cached'' e) = Inr cached_at"
    and "cutoff_of now = Inr cutoff"
    and "microseconds now - microseconds cached_at < hours72"
  shows "update_cache item criteria now w = (Inr (), w)"
proof -
  from assms(7) have "cutoff = microseconds now - hours72"
    by (auto simp: cutoff_of_def split: if_splits)
  with assms(8) have "cutoff < microseconds cached_at" by simp
  then show ?thesis
    by (simp add: update_cache_found [OF assms(1-5,7)] assms(6))
qed

text \<open>
  An entry cached one hour before the call.
\<close>

theorem update_cache_skips_fresh_entry_witness:
  "wf_item (example_item ''a'' ''acme'' (9 / 10) (99 / 100)) \<and>
   list_all wf_entry
     [example_entry (example_item ''b'' ''acme'' 1 1) ''01.11.2026 08:00:00'',
      example_entry (example_item ''a'' ''acme'' (9 / 10) (95 / 100)) ''03.11.2026 14:33:07''] \<and>
   microseconds example_now
     - microseconds \<lparr>year = 2026, month = 11, day = 3, hour = 14, minute = 33, second = 7,
                      microsecond = 0\<rparr> < hours72 \<and>
   update_cache (example_item ''a'' ''acme'' (9 / 10) (99 / 100)) default_criteria example_now
     (example_world (Holds (JObj [(''cached_mcp'', JArr
        [example_entry (example_item ''b'' ''acme'' 1 1) ''01.11.2026 08:00:00'',
         example_entry (example_item ''a'' ''acme'' (9 / 10) (95 / 100)) ''03.11.2026 14:33:07''])])))
     = (Inr (),
        example_world (Holds (JObj [(''cached_mcp'', JArr
        [example_entry (example_item ''b'' ''acme'' 1 1) ''01.11.2026 08:00:00'',
         example_entry (example_item ''a'' ''acme'' (9 / 10) (95 / 100)) ''03.11.2026 14:33:07''])])))"
proof -
  let ?item = "example_item ''a'' ''acme'' (9 / 10) (99 / 100)"
  let ?b = "example_entry (example_item ''b'' ''acme'' 1 1) ''01.11.2026 08:00:00''"
  let ?a = "example_entry (example_item ''a'' ''acme'' (9 / 10) (95 / 100)) ''03.11.2026 14:33:07''"
  let ?cache = "JObj [(''cached_mcp'', JArr [?b, ?a])]"
  let ?w = "example_world (Holds ?cache)"
  let ?t = "\<lparr>year = 2026, month = 11, day = 3, hour = 14, minute = 33, second = 7,
             microsecond = 0\<rparr>"
  have item: "wf_item ?item" by code_simp
  have cache: "load_cache ?w = Inr ?cache"
    by (simp add: load_cache_def example_world_def path_exists_def)
  have entries: "py_get ?cache ''cached_mcp'' (JArr []) = Inr (JArr [?b, ?a])" by simp
  have wf: "list_all wf_entry [?b, ?a]" by code_simp
  have found: "find (\<lambda>e. entry_id e = field ''id'' ?item) [?b, ?a] = Some ?a" by code_simp
  have stamp: "strptime (field ''last_cached'' ?a) = Inr ?t"
    by (simp add: timestamp_eval)
  note cutoff = example_now_cutoff
  have age: "microseconds example_now - microseconds ?t < hours72"
    by (simp add: example_now_def timeline_eval)
  from update_cache_skips_fresh_entry [OF item cache entries wf found stamp cutoff age]
  have "update_cache ?item default_criteria example_now ?w = (Inr (), ?w)" .
  with item wf age show ?thesis by (intro conjI)
qed

lemma unparseable_example:
  "update_cache (example_item ''a'' ''acme'' (9 / 10) (99 / 100)) default_criteria example_now
     (example_world (Holds (JObj [(''cached_mcp'', JArr
        [example_entry (example_item ''a'' ''acme'' (9 / 10) (95 / 100)) ''2026-11-03T14:33:07''])])))
     = (Inl ValueError,
        example_world (Holds (JObj [(''cached_mcp'', JArr
        [example_entry (example_item ''a'' ''acme'' (9 / 10) (95 / 100)) ''2026-11-03T14:33:07''])])))"
proof -
  let ?item = "example_item ''a'' ''acme'' (9 / 10) (99 / 100)"
  let ?a = "example_entry (example_item ''a'' ''acme'' (9 / 10) (95 / 100)) ''2026-11-03T14:33:07''"
  let ?cache = "JObj [(''cached_mcp'', JArr [?a])]"
  let ?w = "example_world (Holds ?cache)"
  have item: "wf_item ?item" by code_simp
  have cache: "load_cache ?w = Inr ?cache"
    by (simp add: load_cache_def example_world_def path_exists_def)
  have entries: "py_get ?cache ''cached_mcp'' (JArr []) = Inr (JArr [?a])" by simp
  have wf: "list_all wf_entry [?a]" by code_simp
  have found: "find (\<lambda>e. entry_id e = field ''id'' ?item) [?a] = Some ?a" by code_simp
  have stamp: "strptime (field ''last_cached'' ?a) = Inl ValueError"
    by (simp add: timestamp_eval)
  note cutoff = example_now_cutoff
  show ?thesis
    using update_cache_found [OF item cache entries wf found cutoff, of default_criteria]
    by (simp only: stamp sum.case)
qed

text \<open>
  C10. When the cache holds an entry for the id of the item and the \<^verbatim>\<open>last_cached\<close> of that
  entry is not a timestamp of the format \<^verbatim>\<open>%d.%m.%Y %H:%M:%S\<close>, then \<^verbatim>\<open>update_cache\<close>
  raises the \<^verbatim>\<open>ValueError\<close> of \<^verbatim>\<open>strptime\<close> and writes nothing; and there is such a
  state, with a cache file that decodes.
\<close>

theorem update_cache_raises_on_unparseable_timestamp:
  assumes "wf_item item" and "load_cache w = Inr cache"
    and "py_get cache ''cached_mcp'' (JArr []) = Inr (JArr entries)"
    and "list_all wf_entry entries"
    and "find (\<lambda>e. entry_id e = field ''id'' item) entries = Some e"
    and "strptime (field ''last_cached'' e) = Inl ValueError"
    and "cutoff_of now = Inr cutoff"
  shows "update_cache item criteria now w = (Inl ValueError, w) \<and>
         (\<exists>item' now' w' v.
            cache_file w' = Holds v \<and>
            update_cache item' default_criteria now' w' = (Inl ValueError, w'))"
proof -
  let ?a = "example_entry (example_item ''a'' ''acme'' (9 / 10) (95 / 100)) ''2026-11-03T14:33:07''"
  have "cache_file (example_world (Holds (JObj [(''cached_mcp'', JArr [?a])])))
          = Holds (JObj [(''cached_mcp'', JArr [?a])])"
    by (simp add: example_world_def)
  with unparseable_example
  have "\<exists>item' now' w' v.
          cache_file w' = Holds v \<and>
          update_cache item' default_criteria now' w' = (Inl ValueError, w')"
    by blast
  moreover have "update_cache item criteria now w = (Inl ValueError, w)"
    by (simp add: update_cache_found [OF assms(1-5,7)] assms(6))
  ultimately show ?thesis by (intro conjI)
qed

text \<open>
  A cache whose second entry was stamped in another format.
\<close>

theorem update_cache_raises_on_unparseable_timestamp_witness:
  "wf_item (example_item ''a'' ''acme'' (9 / 10) (99 / 100)) \<and>
   list_all wf_entry
     [example_entry (example_item ''b'' ''acme'' 1 1) ''01.11.2026 08:00:00'',
      example_entry (example_item ''a'' ''acme'' (9 / 10) (95 / 100)) ''3 Nov 2026 14:33''] \<and>
   strptime (JStr ''3 Nov 2026 14:33'') = Inl ValueError \<and>
   update_cache (example_item ''a'' ''acme'' (9 / 10) (99 / 100)) default_criteria example_now
     (example_world (Holds (JObj [(''cached_mcp'', JArr
        [example_entry (example_item ''b'' ''acme'' 1 1) ''01.11.2026 08:00:00'',
         example_entry (example_item ''a'' ''acme'' (9 / 10) (95 / 100)) ''3 Nov 2026 14:33''])])))
     = (Inl ValueError,
        example_world (Holds (JObj [(''cached_mcp'', JArr
        [example_entry (example_item ''b'' ''acme'' 1 1) ''01.11.2026 08:00:00'',
         example_entry (example_item ''a'' ''acme'' (9 / 10) (95 / 100)) ''3 Nov 2026 14:33''])])))"
proof -
  let ?item = "example_item ''a'' ''acme'' (9 / 10) (99 / 100)"
  let ?b = "example_entry (example_item ''b'' ''acme'' 1 1) ''01.11.2026 08:00:00''"
  let ?a = "example_entry (example_item ''a'' ''acme'' (9 / 10) (95 / 100)) ''3 Nov 2026 14:33''"
  let ?cache = "JObj [(''cached_mcp'', JArr [?b, ?a])]"
  let ?w = "example_world (Holds ?cache)"
  have item: "wf_item ?item" by code_simp
  have cache: "load_cache ?w = Inr ?cache"
    by (simp add: load_cache_def example_world_def path_exists_def)
  have entries: "py_get ?cache ''cached_mcp'' (JArr []) = Inr (JArr [?b, ?a])" by simp
  have wf: "list_all wf_entry [?b, ?a]" by code_simp
  have found: "find (\<lambda>e. entry_id e = field ''id'' ?item) [?b, ?a] = Some ?a" by code_simp
  have unparseable: "strptime (JStr ''3 Nov 2026 14:33'') = Inl ValueError"
    by (simp add: timestamp_eval)
  have stamp: "strptime (field ''last_cached'' ?a) = Inl ValueError"
    by (simp add: timestamp_eval)
  note cutoff = example_now_cutoff
  from update_cache_raises_on_unparseable_timestamp
         [OF item cache entries wf found stamp cutoff, of default_criteria]
  have "update_cache ?item default_criteria example_now ?w = (Inl ValueError, ?w)"
    by (rule conjunct1)
  with item wf unparseable show ?thesis by (intro conjI)
qed

section \<open>Timestamps written and read back\<close>

















section \<open>One upsert\<close>

























section \<open>Repeated upserts\<close>



end
